theory Spec2Isabelle
  imports Complex_Main
begin

section \<open>EDDM (early drift detection method): configuration and detector\<close>

text \<open>
  A shallow embedding of \<^verbatim>\<open>frouros/supervised/ddm_based/eddm.py\<close>.

  The finite values of Python floats are idealised as reals: rounding is not modelled.
  The values nan, inf and -inf are kept wherever the caller or the source itself can
  bring them in: the arguments alpha, beta and level of a configuration, the literal
  \<^verbatim>\<open>float("-inf")\<close> stored in \<^verbatim>\<open>max_distance_threshold\<close>, the sum
  \<^verbatim>\<open>mean_distance_error + level * std_distance_error\<close> stored in
  \<^verbatim>\<open>distance_threshold\<close>, and the quotient of the two thresholds. These live in the
  type \<open>float64\<close> below. The other running fields are computed from instance counts and
  stay finite. Python ints are \<open>int\<close>.

  Every \<^verbatim>\<open>raise\<close> of the source is a value of type \<open>error\<close>. The names are Python's;
  the specification calls the \<^verbatim>\<open>ValueError\<close> of the configuration setters
  ConfigurationError.
\<close>

subsection \<open>Errors\<close>

datatype error =
    ValueError string
  | IndexError
  | ZeroDivisionError
  | AttributeError
  | NotFittedError
  | EmptyBufferError
  | HookError string

subsection \<open>Numbers that may be non-finite\<close>

text \<open>
  \<open>NegInf\<close> is \<^verbatim>\<open>float("-inf")\<close>. \<open>float64_less\<close> is the comparison \<^verbatim>\<open><\<close> of IEEE
  floats and \<open>float64_le\<close> is \<^verbatim>\<open><=\<close>: every comparison with NaN is false.
  \<^verbatim>\<open>a > b\<close> is \<open>float64_less b a\<close> and \<^verbatim>\<open>a >= b\<close> is \<open>float64_le b a\<close>.
\<close>

datatype float64 = NaN | NegInf | PosInf | Fin real

fun float64_less :: "float64 \<Rightarrow> float64 \<Rightarrow> bool" where
  "float64_less NaN _ = False"
| "float64_less _ NaN = False"
| "float64_less NegInf NegInf = False"
| "float64_less NegInf _ = True"
| "float64_less PosInf _ = False"
| "float64_less (Fin a) NegInf = False"
| "float64_less (Fin a) PosInf = True"
| "float64_less (Fin a) (Fin b) = (a < b)"

definition float64_le :: "float64 \<Rightarrow> float64 \<Rightarrow> bool" where
  "float64_le a b = (float64_less a b \<or> (a = b \<and> a \<noteq> NaN))"

text \<open>
  Sum and product, for line 427: nan when an operand is nan, when infinities of
  opposite sign are added, and when an infinity is multiplied by zero.
\<close>

fun float64_add :: "float64 \<Rightarrow> float64 \<Rightarrow> float64" where
  "float64_add NaN _ = NaN"
| "float64_add _ NaN = NaN"
| "float64_add PosInf NegInf = NaN"
| "float64_add NegInf PosInf = NaN"
| "float64_add PosInf _ = PosInf"
| "float64_add _ PosInf = PosInf"
| "float64_add NegInf _ = NegInf"
| "float64_add _ NegInf = NegInf"
| "float64_add (Fin a) (Fin b) = Fin (a + b)"

fun float64_mul :: "float64 \<Rightarrow> float64 \<Rightarrow> float64" where
  "float64_mul NaN _ = NaN"
| "float64_mul _ NaN = NaN"
| "float64_mul PosInf PosInf = PosInf"
| "float64_mul PosInf NegInf = NegInf"
| "float64_mul NegInf PosInf = NegInf"
| "float64_mul NegInf NegInf = PosInf"
| "float64_mul PosInf (Fin b) = (if b = 0 then NaN else if 0 < b then PosInf else NegInf)"
| "float64_mul NegInf (Fin b) = (if b = 0 then NaN else if 0 < b then NegInf else PosInf)"
| "float64_mul (Fin a) PosInf = (if a = 0 then NaN else if 0 < a then PosInf else NegInf)"
| "float64_mul (Fin a) NegInf = (if a = 0 then NaN else if 0 < a then NegInf else PosInf)"
| "float64_mul (Fin a) (Fin b) = Fin (a * b)"

text \<open>
  The quotient of line 434. Its dividend is \<^verbatim>\<open>distance_threshold\<close>, a numpy float
  (it is a sum with \<^verbatim>\<open>np.sqrt(...)\<close>), so a zero divisor raises nothing: numpy gives
  nan for 0/0 and an infinity otherwise. A finite number divided by an infinity is zero;
  an infinity divided by an infinity is nan.
\<close>

fun float64_div :: "float64 \<Rightarrow> float64 \<Rightarrow> float64" where
  "float64_div NaN _ = NaN"
| "float64_div _ NaN = NaN"
| "float64_div PosInf PosInf = NaN"
| "float64_div PosInf NegInf = NaN"
| "float64_div NegInf PosInf = NaN"
| "float64_div NegInf NegInf = NaN"
| "float64_div PosInf (Fin b) = (if b < 0 then NegInf else PosInf)"
| "float64_div NegInf (Fin b) = (if b < 0 then PosInf else NegInf)"
| "float64_div (Fin a) NegInf = Fin 0"
| "float64_div (Fin a) PosInf = Fin 0"
| "float64_div (Fin a) (Fin b) =
     (if b = 0 then (if a = 0 then NaN else if 0 < a then PosInf else NegInf)
      else Fin (a / b))"

subsection \<open>EDDMConfig\<close>

record config =
  min_num_instances :: int
  alpha :: float64
  beta :: float64
  level :: float64
  min_num_misclassified_instances :: int

text \<open>
  Modelled from the spec: \<^verbatim>\<open>DDMBaseConfig.__init__(min_num_instances)\<close> is in
  \<^verbatim>\<open>frouros/supervised/ddm_based/base.py\<close>, which is not among the sources. The
  specification (4.1) gives its rule: the minimum-count field is at least 0, and a
  violation fails as the other configuration rules do.
\<close>

definition DDMBaseConfig_init :: "int \<Rightarrow> error + int" where
  "DDMBaseConfig_init value =
     (if value < 0 then Inl (ValueError ''min_num_instances must be greater or equal than 0.'')
      else Inr value)"

text \<open>
  The checks of the four property setters, in the order of the source's statements.
  The tests are the source's comparisons \<^verbatim>\<open>value <= 0.0\<close> and
  \<^verbatim>\<open>value >= self.alpha\<close>: with a nan on either side they are false, and the value is
  stored.
\<close>

definition alpha_check :: "float64 \<Rightarrow> error + float64" where
  "alpha_check value = Inr value"

definition beta_check :: "float64 \<Rightarrow> float64 \<Rightarrow> error + float64" where
  "beta_check self_alpha value =
     (if float64_le value (Fin 0) then Inl (ValueError ''beta must be greater than 0.0.'')
      else if float64_le self_alpha value then Inl (ValueError ''beta must be less than alpha.'')
      else Inr value)"

definition level_check :: "float64 \<Rightarrow> error + float64" where
  "level_check value =
     (if float64_le value (Fin 0) then Inl (ValueError ''drift level must be greater than 0.0.'')
      else Inr value)"

definition min_num_misclassified_instances_check :: "int \<Rightarrow> error + int" where
  "min_num_misclassified_instances_check value =
     (if value < 0
      then Inl (ValueError ''min_num_misclassified_instances must be greater or equal than 0.'')
      else Inr value)"

text \<open>
  \<^verbatim>\<open>self.<field> = value\<close> on a constructed configuration: the check, then the store.
  When the check raises, the caller keeps the configuration it had.
\<close>

definition alpha_setter :: "float64 \<Rightarrow> config \<Rightarrow> error + config" where
  "alpha_setter value c =
     (case alpha_check value of Inl e \<Rightarrow> Inl e | Inr v \<Rightarrow> Inr (c\<lparr>alpha := v\<rparr>))"

definition beta_setter :: "float64 \<Rightarrow> config \<Rightarrow> error + config" where
  "beta_setter value c =
     (case beta_check (alpha c) value of Inl e \<Rightarrow> Inl e | Inr v \<Rightarrow> Inr (c\<lparr>beta := v\<rparr>))"

definition level_setter :: "float64 \<Rightarrow> config \<Rightarrow> error + config" where
  "level_setter value c =
     (case level_check value of Inl e \<Rightarrow> Inl e | Inr v \<Rightarrow> Inr (c\<lparr>level := v\<rparr>))"

definition min_num_misclassified_instances_setter :: "int \<Rightarrow> config \<Rightarrow> error + config" where
  "min_num_misclassified_instances_setter value c =
     (case min_num_misclassified_instances_check value of
        Inl e \<Rightarrow> Inl e
      | Inr v \<Rightarrow> Inr (c\<lparr>min_num_misclassified_instances := v\<rparr>))"

text \<open>
  \<^verbatim>\<open>EDDMConfig.__init__\<close>: the base initialiser, then the four assignments in the order
  alpha, beta, level, min_num_misclassified_instances. The beta check reads the alpha
  that was assigned just before it. The first check that raises ends the construction.
\<close>

definition EDDMConfig_init ::
  "float64 \<Rightarrow> float64 \<Rightarrow> float64 \<Rightarrow> int \<Rightarrow> int \<Rightarrow> error + config" where
  "EDDMConfig_init alpha0 beta0 level0 min_mis0 min_inst0 =
     (case DDMBaseConfig_init min_inst0 of Inl e \<Rightarrow> Inl e | Inr n \<Rightarrow>
     (case alpha_check alpha0 of Inl e \<Rightarrow> Inl e | Inr a \<Rightarrow>
     (case beta_check a beta0 of Inl e \<Rightarrow> Inl e | Inr b \<Rightarrow>
     (case level_check level0 of Inl e \<Rightarrow> Inl e | Inr l \<Rightarrow>
     (case min_num_misclassified_instances_check min_mis0 of Inl e \<Rightarrow> Inl e | Inr m \<Rightarrow>
        Inr \<lparr>min_num_instances = n, alpha = a, beta = b, level = l,
             min_num_misclassified_instances = m\<rparr>)))))"

text \<open>The defaults of the signature: alpha 0.95, beta 0.9, level 2.0, both minima 30.\<close>

definition default_config :: config where
  "default_config =
     \<lparr>min_num_instances = 30, alpha = Fin (95 / 100), beta = Fin (9 / 10), level = Fin 2,
      min_num_misclassified_instances = 30\<rparr>"

subsection \<open>numpy on one-dimensional arrays\<close>

type_synonym features = "real list list"
type_synonym labels = "int list"

text \<open>
  \<^verbatim>\<open>y != y_pred\<close>, elementwise. Arrays of one length are compared position by position;
  an array of length 1 is broadcast against the other; any other pair of lengths cannot
  be broadcast.
\<close>

definition np_not_equal :: "labels \<Rightarrow> labels \<Rightarrow> error + bool list" where
  "np_not_equal y y_pred =
     (if length y = length y_pred then Inr (map2 (\<lambda>a b. a \<noteq> b) y y_pred)
      else if length y = 1 then Inr (map (\<lambda>b. hd y \<noteq> b) y_pred)
      else if length y_pred = 1 then Inr (map (\<lambda>a. a \<noteq> hd y_pred) y)
      else Inl (ValueError ''operands could not be broadcast together''))"

text \<open>\<^verbatim>\<open>np.argwhere(mask)\<close>: the positions where the mask is true, in increasing order.\<close>

definition np_argwhere :: "bool list \<Rightarrow> nat list" where
  "np_argwhere msk = filter (\<lambda>i. msk ! i) [0 ..< length msk]"

text \<open>\<^verbatim>\<open>a[idxs]\<close> with an array of indices: IndexError when one is out of range.\<close>

definition np_take :: "'a list \<Rightarrow> nat list \<Rightarrow> error + 'a list" where
  "np_take a idxs =
     (if list_all (\<lambda>i. i < length a) idxs then Inr (map (\<lambda>i. a ! i) idxs)
      else Inl IndexError)"

text \<open>
  Lines 371 to 375, the \<^verbatim>\<open>try\<close> block:
  \<^verbatim>\<open>misclassified_idxs = np.argwhere(~(y != y_pred))[0]\<close>.
  The mask handed to \<^verbatim>\<open>argwhere\<close> is the negation of \<^verbatim>\<open>y != y_pred\<close>; the subscript
  \<^verbatim>\<open>[0]\<close> takes the first row of the result, an array of one index, and raises IndexError
  when there is no row. That IndexError is caught: \<open>None\<close> stands for
  \<^verbatim>\<open>non_misclassified_instances = True\<close>. The comparison is inside the \<^verbatim>\<open>try\<close> too, but
  its ValueError is not caught.
\<close>

definition misclassified_idxs :: "labels \<Rightarrow> labels \<Rightarrow> error + nat list option" where
  "misclassified_idxs y y_pred =
     (case np_not_equal y y_pred of
        Inl e \<Rightarrow> Inl e
      | Inr ne \<Rightarrow>
          (case np_argwhere (map Not ne) of
             [] \<Rightarrow> Inr None
           | i # _ \<Rightarrow> Inr (Some [i])))"

subsection \<open>The detector object\<close>

text \<open>
  The attributes of the base class that \<^verbatim>\<open>EDDM\<close> reads or writes. The base class
  (\<^verbatim>\<open>DDMBasedEstimator\<close>) is not among the sources; \<open>estimator_fitted\<close> records whether
  sklearn's \<^verbatim>\<open>check_is_fitted(self.estimator)\<close> passes.
\<close>

record ddm_base =
  estimator_fitted :: bool
  config :: config
  num_instances :: int
  delayed_predictions :: "(features \<times> labels) list"
  drift_insufficient_samples :: bool
  ground_truth :: labels
  predictions :: labels

text \<open>
  The attributes behind the properties of \<^verbatim>\<open>EDDM\<close>. \<^verbatim>\<open>_std_distance_error\<close> is
  assigned neither by \<^verbatim>\<open>__init__\<close> nor by \<^verbatim>\<open>_reset\<close>: \<open>None\<close> is the attribute that does
  not exist yet, and reading it raises AttributeError.
\<close>

record eddm = ddm_base +
  actual_distance_error :: real
  distance_threshold :: float64
  last_distance_error :: real
  max_distance_threshold :: float64
  mean_distance_error :: real
  num_misclassified_instances :: int
  old_mean_distance_error :: real
  std_distance_error :: "real option"
  variance_distance_error :: real

record response =
  drift :: bool
  warning :: bool
  response_distance_threshold :: float64
  response_max_distance_threshold :: float64
  response_mean_distance_error :: real
  response_std_distance_error :: real

subsection \<open>Methods as state transformers\<close>

text \<open>
  A method takes the object and gives back its result, or the exception it raised, with
  the object as the method left it: what was assigned before a \<^verbatim>\<open>raise\<close> stays assigned.
\<close>

type_synonym 'a act = "eddm \<Rightarrow> (error + 'a) \<times> eddm"

definition returns :: "'a \<Rightarrow> 'a act" where
  "returns a = (\<lambda>s. (Inr a, s))"

definition raise :: "error \<Rightarrow> 'a act" where
  "raise e = (\<lambda>s. (Inl e, s))"

definition gets :: "(eddm \<Rightarrow> 'a) \<Rightarrow> 'a act" where
  "gets f = (\<lambda>s. (Inr (f s), s))"

definition lift :: "error + 'a \<Rightarrow> 'a act" where
  "lift r = (\<lambda>s. (r, s))"

definition and_then :: "'a act \<Rightarrow> ('a \<Rightarrow> 'b act) \<Rightarrow> 'b act" where
  "and_then f g = (\<lambda>s. case f s of (Inl e, s') \<Rightarrow> (Inl e, s') | (Inr a, s') \<Rightarrow> g a s')"

text \<open>
  The methods of the base class that \<^verbatim>\<open>EDDM\<close> calls are parameters: the check of the
  insufficient-samples phase, the three handlers of \<^verbatim>\<open>_check_case\<close>, and
  \<^verbatim>\<open>super()._reset()\<close>. Each may assign attributes and may raise.
\<close>

record hooks =
  check_drift_insufficient_samples :: "features \<Rightarrow> labels \<Rightarrow> bool act"
  drift_case :: "features \<Rightarrow> labels \<Rightarrow> unit act"
  warning_case :: "features \<Rightarrow> labels \<Rightarrow> unit act"
  normal_case :: "labels \<Rightarrow> unit act"
  base_reset :: "unit act"

subsection \<open>Property setters and getters of EDDM\<close>

definition actual_distance_error_setter :: "real \<Rightarrow> unit act" where
  "actual_distance_error_setter value = (\<lambda>s.
     if value < 0 then (Inl (ValueError ''actual_distance_error must be great or equal than 0.''), s)
     else (Inr (), s\<lparr>actual_distance_error := value\<rparr>))"

definition distance_threshold_setter :: "float64 \<Rightarrow> unit act" where
  "distance_threshold_setter value = (\<lambda>s.
     if float64_less value (Fin 0) then (Inl (ValueError ''distance_threshold must be great or equal than 0.''), s)
     else (Inr (), s\<lparr>distance_threshold := value\<rparr>))"

definition last_distance_error_setter :: "real \<Rightarrow> unit act" where
  "last_distance_error_setter value = (\<lambda>s.
     if value < 0 then (Inl (ValueError ''last_distance_error must be great or equal than 0.''), s)
     else (Inr (), s\<lparr>last_distance_error := value\<rparr>))"

definition max_distance_threshold_setter :: "float64 \<Rightarrow> unit act" where
  "max_distance_threshold_setter value = (\<lambda>s.
     (Inr (), s\<lparr>max_distance_threshold := value\<rparr>))"

definition mean_distance_error_setter :: "real \<Rightarrow> unit act" where
  "mean_distance_error_setter value = (\<lambda>s.
     if value < 0 then (Inl (ValueError ''mean_distance_error must be great or equal than 0.''), s)
     else (Inr (), s\<lparr>mean_distance_error := value\<rparr>))"

definition num_misclassified_instances_setter :: "int \<Rightarrow> unit act" where
  "num_misclassified_instances_setter value = (\<lambda>s.
     if value < 0
     then (Inl (ValueError ''num_misclassified_instances must be greater or equal than 0.''), s)
     else (Inr (), s\<lparr>num_misclassified_instances := value\<rparr>))"

definition old_mean_distance_error_setter :: "real \<Rightarrow> unit act" where
  "old_mean_distance_error_setter value = (\<lambda>s.
     if value < 0
     then (Inl (ValueError ''old_mean_distance_error must be great or equal than 0.''), s)
     else (Inr (), s\<lparr>old_mean_distance_error := value\<rparr>))"

definition std_distance_error_setter :: "real \<Rightarrow> unit act" where
  "std_distance_error_setter value = (\<lambda>s.
     if value < 0 then (Inl (ValueError ''std_distance_error must be great or equal than 0.''), s)
     else (Inr (), s\<lparr>std_distance_error := Some value\<rparr>))"

definition variance_distance_error_setter :: "real \<Rightarrow> unit act" where
  "variance_distance_error_setter value = (\<lambda>s.
     if value < 0 then (Inl (ValueError ''variance must be great or equal than 0.''), s)
     else (Inr (), s\<lparr>variance_distance_error := value\<rparr>))"

definition std_distance_error_getter :: "real act" where
  "std_distance_error_getter = (\<lambda>s.
     case std_distance_error s of
       None \<Rightarrow> (Inl AttributeError, s)
     | Some v \<Rightarrow> (Inr v, s))"

subsection \<open>What the base class provides\<close>

text \<open>
  Modelled from the spec: the attributes \<^verbatim>\<open>num_instances\<close>, \<^verbatim>\<open>delayed_predictions\<close>,
  \<^verbatim>\<open>ground_truth\<close> and \<^verbatim>\<open>predictions\<close> and the method \<^verbatim>\<open>_get_update_response\<close> are
  declared in the base class, which is not among the sources. By the specification,
  \<^verbatim>\<open>num_instances\<close> is a plain counter (section 3); the buffer is a FIFO queue whose
  \<^verbatim>\<open>popOldest\<close> removes the head and fails with EmptyBufferError when the queue is empty,
  and whose \<^verbatim>\<open>push\<close> appends at the tail (4.2); the two histories are append-only lists
  (section 3); the response is the record of the two flags and the four numbers (4.3).
\<close>

definition num_instances_setter :: "int \<Rightarrow> unit act" where
  "num_instances_setter value = (\<lambda>s. (Inr (), s\<lparr>num_instances := value\<rparr>))"

definition popleft :: "(features \<times> labels) act" where
  "popleft = (\<lambda>s.
     case delayed_predictions s of
       [] \<Rightarrow> (Inl EmptyBufferError, s)
     | e # es \<Rightarrow> (Inr e, s\<lparr>delayed_predictions := es\<rparr>))"

definition push :: "features \<Rightarrow> labels \<Rightarrow> eddm \<Rightarrow> eddm" where
  "push X y_pred s = s\<lparr>delayed_predictions := delayed_predictions s @ [(X, y_pred)]\<rparr>"

definition ground_truth_extend :: "labels \<Rightarrow> unit act" where
  "ground_truth_extend y = (\<lambda>s. (Inr (), s\<lparr>ground_truth := ground_truth s @ y\<rparr>))"

definition predictions_extend :: "labels \<Rightarrow> unit act" where
  "predictions_extend y_pred = (\<lambda>s. (Inr (), s\<lparr>predictions := predictions s @ y_pred\<rparr>))"

definition get_update_response ::
  "bool \<Rightarrow> bool \<Rightarrow> float64 \<Rightarrow> float64 \<Rightarrow> real \<Rightarrow> real \<Rightarrow> response" where
  "get_update_response d w dt mx m sd =
     \<lparr>drift = d, warning = w, response_distance_threshold = dt,
      response_max_distance_threshold = mx, response_mean_distance_error = m,
      response_std_distance_error = sd\<rparr>"

text \<open>\<^verbatim>\<open>check_is_fitted(self.estimator)\<close>, of sklearn: NotFittedError unless fitted.\<close>

definition check_is_fitted :: "unit act" where
  "check_is_fitted = (\<lambda>s. if estimator_fitted s then (Inr (), s) else (Inl NotFittedError, s))"

subsection \<open>Construction and reset\<close>

text \<open>
  \<^verbatim>\<open>EDDM.__init__\<close> after \<^verbatim>\<open>super().__init__\<close>, whose result is the argument. Each of
  the eight assignments goes through its setter with a constant that passes the check.
  There is no assignment to \<^verbatim>\<open>std_distance_error\<close>.
\<close>

definition EDDM_init :: "ddm_base \<Rightarrow> eddm" where
  "EDDM_init b =
     \<lparr>estimator_fitted = estimator_fitted b, config = config b,
      num_instances = num_instances b, delayed_predictions = delayed_predictions b,
      drift_insufficient_samples = drift_insufficient_samples b,
      ground_truth = ground_truth b, predictions = predictions b,
      actual_distance_error = 0, distance_threshold = Fin 0, last_distance_error = 0,
      max_distance_threshold = NegInf, mean_distance_error = 0,
      num_misclassified_instances = 0, old_mean_distance_error = 0,
      std_distance_error = None, variance_distance_error = 0\<rparr>"

text \<open>\<^verbatim>\<open>EDDM._reset\<close>, lines 461 to 470.\<close>

definition EDDM_reset :: "hooks \<Rightarrow> unit act" where
  "EDDM_reset h =
     and_then (base_reset h) (\<lambda>_.
     and_then (actual_distance_error_setter 0) (\<lambda>_.
     and_then (distance_threshold_setter (Fin 0)) (\<lambda>_.
     and_then (gets actual_distance_error) (\<lambda>a.
     and_then (last_distance_error_setter a) (\<lambda>_.
     and_then (max_distance_threshold_setter NegInf) (\<lambda>_.
     and_then (mean_distance_error_setter 0) (\<lambda>_.
     and_then (num_misclassified_instances_setter 0) (\<lambda>_.
     and_then (gets mean_distance_error) (\<lambda>m.
     and_then (old_mean_distance_error_setter m) (\<lambda>_.
     variance_distance_error_setter 0))))))))))"

subsection \<open>Responses\<close>

text \<open>\<^verbatim>\<open>_response\<close> and \<^verbatim>\<open>_normal_response\<close>, lines 342 to 357.\<close>

definition response_of :: "bool \<Rightarrow> bool \<Rightarrow> response act" where
  "response_of d w =
     and_then (gets distance_threshold) (\<lambda>dt.
     and_then (gets max_distance_threshold) (\<lambda>mx.
     and_then (gets mean_distance_error) (\<lambda>m.
     and_then std_distance_error_getter (\<lambda>sd.
     returns (get_update_response d w dt mx m sd)))))"

definition normal_response :: "response act" where
  "normal_response = response_of False False"

subsection \<open>The update operation\<close>

text \<open>
  \<^verbatim>\<open>EDDM.update\<close> is written in four parts that follow each other in the source: the
  head (lines 367 to 383) is in \<open>update\<close> itself, which then runs \<open>update_statistics\<close>
  (lines 385 to 403), \<open>update_decision\<close> (lines 405 to 423) and \<open>update_threshold\<close>
  (lines 425 to 439). Every read of an attribute is a \<open>gets\<close> at the place of the read.
\<close>

text \<open>
  Lines 385 to 403. \<open>sz\<close> is \<^verbatim>\<open>misclassified_idxs.size\<close>. The quotient of line 395
  has Python operands: a zero divisor raises ZeroDivisionError.
\<close>

definition update_statistics :: "int \<Rightarrow> unit act" where
  "update_statistics sz =
     and_then (gets num_misclassified_instances) (\<lambda>n0.
     and_then (num_misclassified_instances_setter (n0 + sz)) (\<lambda>_.
     and_then (gets actual_distance_error) (\<lambda>a0.
     and_then (last_distance_error_setter a0) (\<lambda>_.
     and_then (gets num_instances) (\<lambda>ni.
     and_then (actual_distance_error_setter (real_of_int (ni - 1))) (\<lambda>_.
     and_then (gets actual_distance_error) (\<lambda>a.
     and_then (gets last_distance_error) (\<lambda>l.
     and_then (returns (a - l)) (\<lambda>distance.
     and_then (gets mean_distance_error) (\<lambda>m0.
     and_then (old_mean_distance_error_setter m0) (\<lambda>_.
     and_then (gets mean_distance_error) (\<lambda>m1.
     and_then (gets num_misclassified_instances) (\<lambda>n1.
     and_then (if n1 = 0 then raise ZeroDivisionError
               else mean_distance_error_setter (m1 + (distance - m1) / real_of_int n1)) (\<lambda>_.
     and_then (gets variance_distance_error) (\<lambda>v0.
     and_then (gets mean_distance_error) (\<lambda>m.
     and_then (gets old_mean_distance_error) (\<lambda>om.
     and_then (variance_distance_error_setter (v0 + (distance - m) * (distance - om))) (\<lambda>_.
     and_then (gets num_misclassified_instances) (\<lambda>n.
     and_then (gets variance_distance_error) (\<lambda>v.
     std_distance_error_setter
       (if n > 0 then sqrt (v / real_of_int n) else 0)))))))))))))))))))))"

text \<open>\<^verbatim>\<open>EDDM._check_case\<close>, lines 441 to 459.\<close>

definition check_case :: "hooks \<Rightarrow> features \<Rightarrow> labels \<Rightarrow> float64 \<Rightarrow> (bool \<times> bool) act" where
  "check_case h X y p =
     and_then (gets (\<lambda>s. beta (config s))) (\<lambda>b.
     if float64_less p b
     then and_then (drift_case h X y) (\<lambda>_. returns (True, True))
     else and_then (gets (\<lambda>s. alpha (config s))) (\<lambda>a.
          if float64_less p a
          then and_then (warning_case h X y) (\<lambda>_. returns (False, True))
          else and_then (normal_case h y) (\<lambda>_. returns (False, False))))"

text \<open>
  Lines 425 to 439. The mean and the standard deviation are finite; the level is
  whatever the configuration holds.
\<close>

definition update_threshold :: "hooks \<Rightarrow> features \<Rightarrow> labels \<Rightarrow> response act" where
  "update_threshold h X y =
     and_then (gets mean_distance_error) (\<lambda>m.
     and_then (gets (\<lambda>s. level (config s))) (\<lambda>l.
     and_then std_distance_error_getter (\<lambda>sd.
     and_then (distance_threshold_setter (float64_add (Fin m) (float64_mul l (Fin sd)))) (\<lambda>_.
     and_then (gets distance_threshold) (\<lambda>dt.
     and_then (gets max_distance_threshold) (\<lambda>mx.
     if float64_less mx dt
     then and_then (max_distance_threshold_setter dt) (\<lambda>_. normal_response)
     else and_then (returns (float64_div dt mx)) (\<lambda>p.
          and_then (check_case h X y p) (\<lambda>(d, w).
          response_of d w))))))))"

text \<open>
  Lines 405 to 423. When \<^verbatim>\<open>_drift_insufficient_samples\<close> is false the check of line 410
  is not called and the flow continues as when it answers false.
\<close>

definition update_decision :: "hooks \<Rightarrow> features \<Rightarrow> labels \<Rightarrow> labels \<Rightarrow> response act" where
  "update_decision h X y y_pred =
     and_then (gets num_instances) (\<lambda>ni.
     and_then (gets (\<lambda>s. min_num_instances (config s))) (\<lambda>mi.
     if ni < mi then normal_response
     else
     and_then (gets drift_insufficient_samples) (\<lambda>dis.
     and_then (if dis then check_drift_insufficient_samples h X y else returns False)
       (\<lambda>drift_completed_flag.
     if drift_completed_flag then response_of True True
     else
     and_then (ground_truth_extend y) (\<lambda>_.
     and_then (predictions_extend y_pred) (\<lambda>_.
     and_then (gets num_misclassified_instances) (\<lambda>n.
     and_then (gets (\<lambda>s. min_num_misclassified_instances (config s))) (\<lambda>mm.
     if n < mm then normal_response
     else update_threshold h X y))))))))"

text \<open>\<^verbatim>\<open>EDDM.update\<close>, lines 359 to 439.\<close>

definition update :: "hooks \<Rightarrow> labels \<Rightarrow> response act" where
  "update h y =
     and_then check_is_fitted (\<lambda>_.
     and_then popleft (\<lambda>(X, y_pred).
     and_then (gets num_instances) (\<lambda>ni.
     and_then (num_instances_setter (ni + int (length y_pred))) (\<lambda>_.
     (case misclassified_idxs y y_pred of
        Inl e \<Rightarrow> raise e
      | Inr None \<Rightarrow> normal_response
      | Inr (Some idxs) \<Rightarrow>
          and_then (lift (np_take X idxs)) (\<lambda>X'.
          and_then (lift (np_take y idxs)) (\<lambda>y'.
          and_then (lift (np_take y_pred idxs)) (\<lambda>y_pred'.
          and_then (update_statistics (int (length idxs))) (\<lambda>_.
          update_decision h X' y' y_pred')))))))))"

subsection \<open>Sequences of calls\<close>

text \<open>
  A caller registers a batch of predictions (\<open>Predict\<close>, the push of the buffer), hands
  in the labels of the oldest pending batch (\<open>Update\<close>), or resets the detector
  (\<open>Reset\<close>). A call that raises leaves the object as it was at the \<^verbatim>\<open>raise\<close>, and the
  caller may go on.
\<close>

datatype call = Predict features labels | Update labels | Reset

fun step :: "hooks \<Rightarrow> call \<Rightarrow> eddm \<Rightarrow> eddm" where
  "step h (Predict X y_pred) s = push X y_pred s"
| "step h (Update y) s = snd (update h y s)"
| "step h Reset s = snd (EDDM_reset h s)"

fun run :: "hooks \<Rightarrow> call list \<Rightarrow> eddm \<Rightarrow> eddm" where
  "run h [] s = s"
| "run h (c # cs) s = run h cs (step h c s)"

fun is_reset :: "call \<Rightarrow> bool" where
  "is_reset Reset = True"
| "is_reset _ = False"

text \<open>Handlers that do nothing, and a freshly constructed base object.\<close>

definition no_hooks :: hooks where
  "no_hooks =
     \<lparr>check_drift_insufficient_samples = (\<lambda>X y. returns False),
      drift_case = (\<lambda>X y. returns ()),
      warning_case = (\<lambda>X y. returns ()),
      normal_case = (\<lambda>y. returns ()),
      base_reset = returns ()\<rparr>"

definition fresh_base :: "config \<Rightarrow> ddm_base" where
  "fresh_base c =
     \<lparr>estimator_fitted = True, config = c, num_instances = 0, delayed_predictions = [],
      drift_insufficient_samples = False, ground_truth = [], predictions = []\<rparr>"

subsection \<open>Predicates of the statements\<close>

text \<open>The positions where prediction and truth differ, for arrays of one length.\<close>

definition misclassified_positions :: "labels \<Rightarrow> labels \<Rightarrow> nat list" where
  "misclassified_positions y y_pred = filter (\<lambda>i. y ! i \<noteq> y_pred ! i) [0 ..< length y]"

text \<open>Wherever \<^verbatim>\<open>std_distance_error\<close> has a value, the value is not negative.\<close>

definition std_ok :: "eddm \<Rightarrow> bool" where
  "std_ok s = (case std_distance_error s of None \<Rightarrow> True | Some v \<Rightarrow> 0 \<le> v)"

text \<open>The handlers of the base class leave an attribute of \<^verbatim>\<open>EDDM\<close> as it is.\<close>

definition hooks_keep :: "(eddm \<Rightarrow> 'a) \<Rightarrow> hooks \<Rightarrow> bool" where
  "hooks_keep f h =
     ((\<forall>X y s. f (snd (check_drift_insufficient_samples h X y s)) = f s) \<and>
      (\<forall>X y s. f (snd (drift_case h X y s)) = f s) \<and>
      (\<forall>X y s. f (snd (warning_case h X y s)) = f s) \<and>
      (\<forall>y s. f (snd (normal_case h y s)) = f s) \<and>
      (\<forall>s. f (snd (base_reset h s)) = f s))"

text \<open>
  \<open>max_ge m0\<close>: the maximum is \<open>m0\<close> or above it. \<open>preserves P f\<close>: the method \<open>f\<close>
  keeps \<open>P\<close> of the object, whether it returns or raises. \<open>ends_with_std f\<close>: a response
  that \<open>f\<close> returns carries the standard deviation the object then has.
\<close>

definition max_ge :: "float64 \<Rightarrow> eddm \<Rightarrow> bool" where
  "max_ge m0 s = (max_distance_threshold s = m0 \<or> float64_less m0 (max_distance_threshold s))"

definition preserves :: "(eddm \<Rightarrow> bool) \<Rightarrow> 'a act \<Rightarrow> bool" where
  "preserves P f = (\<forall>s. P s \<longrightarrow> P (snd (f s)))"

definition ends_with_std :: "response act \<Rightarrow> bool" where
  "ends_with_std f = (\<forall>s r s'. f s = (Inr r, s') \<longrightarrow>
       std_distance_error s' = Some (response_std_distance_error r))"

subsection \<open>Example inputs\<close>

text \<open>A configuration that construction accepts, with both minima at 0 and level 0.2.\<close>

definition zone_config :: config where
  "zone_config =
     \<lparr>min_num_instances = 0, alpha = Fin (95 / 100), beta = Fin (9 / 10), level = Fin (1 / 5),
      min_num_misclassified_instances = 0\<rparr>"

text \<open>A detector with one pending batch of two predictions, both equal to 1.\<close>

definition pending_two :: eddm where
  "pending_two = push [ [0], [0] ] [1, 1] (EDDM_init (fresh_base default_config))"

text \<open>A detector with one pending batch of three predictions, all equal to 0.\<close>

definition pending_three :: eddm where
  "pending_three = push [ [0], [0], [0] ] [0, 0, 0] (EDDM_init (fresh_base default_config))"

text \<open>
  A detector with that configuration: a batch of five right predictions has been
  processed and a batch of two is pending.
\<close>

definition zone_calls :: "call list" where
  "zone_calls =
     [Predict [ [0], [0], [0], [0], [0] ] [0, 0, 0, 0, 0], Update [0, 0, 0, 0, 0],
      Predict [ [0], [0] ] [0, 0] ]"

definition zone_state :: eddm where
  "zone_state = run no_hooks zone_calls (EDDM_init (fresh_base zone_config))"

text \<open>The same detector after the labels of the pending batch have been handed in.\<close>

definition zone_after :: eddm where
  "zone_after = snd (update no_hooks [0, 0] zone_state)"

text \<open>
  A freshly constructed detector on which only \<^verbatim>\<open>std_distance_error = 0.0\<close> has been
  assigned, and one whose classifier is not fitted.
\<close>

definition threshold_fresh :: eddm where
  "threshold_fresh = (EDDM_init (fresh_base zone_config))\<lparr>std_distance_error := Some 0\<rparr>"

definition unfitted :: eddm where
  "unfitted = pending_two\<lparr>estimator_fitted := False\<rparr>"

section \<open>Properties\<close>

subsection \<open>Unfolding and composition lemmas\<close>

lemmas act_defs = returns_def raise_def gets_def lift_def and_then_def

lemmas setter_defs = actual_distance_error_setter_def distance_threshold_setter_def
  last_distance_error_setter_def max_distance_threshold_setter_def mean_distance_error_setter_def
  num_misclassified_instances_setter_def old_mean_distance_error_setter_def
  std_distance_error_setter_def variance_distance_error_setter_def std_distance_error_getter_def
  num_instances_setter_def popleft_def ground_truth_extend_def predictions_extend_def
  check_is_fitted_def

lemmas update_defs = update_def update_statistics_def update_decision_def update_threshold_def
  check_case_def response_of_def normal_response_def get_update_response_def

lemmas example_defs = push_def EDDM_init_def fresh_base_def default_config_def no_hooks_def
  zone_config_def

lemmas config_defs = EDDMConfig_init_def DDMBaseConfig_init_def alpha_check_def beta_check_def
  level_check_def min_num_misclassified_instances_check_def

lemmas numpy_defs = misclassified_idxs_def np_not_equal_def np_argwhere_def np_take_def
  upt_conv_Cons

lemma preserves_and_then:
  assumes "preserves P f" and "\<And>a. preserves P (g a)"
  shows "preserves P (and_then f g)"
  using assms unfolding preserves_def and_then_def
  by (auto split: prod.splits sum.splits)

lemma preserves_pure:
  "preserves P (returns a)" "preserves P (raise e)" "preserves P (gets f)" "preserves P (lift r)"
  by (simp_all add: preserves_def act_defs)

lemma preserves_if:
  assumes "c \<Longrightarrow> preserves P f" and "\<not> c \<Longrightarrow> preserves P g"
  shows "preserves P (if c then f else g)"
  using assms by simp

lemma preserves_case_prod:
  assumes "\<And>a b. preserves P (f a b)"
  shows "preserves P (case x of (a, b) \<Rightarrow> f a b)"
  using assms by (cases x) simp

lemma preserves_case_idxs:
  assumes "\<And>e. preserves P (f e)" and "preserves P g" and "\<And>idxs. preserves P (k idxs)"
  shows "preserves P (case r of Inl e \<Rightarrow> f e | Inr None \<Rightarrow> g | Inr (Some idxs) \<Rightarrow> k idxs)"
  using assms by (simp split: sum.splits option.splits)

lemma hooks_keep_no_hooks: "hooks_keep f no_hooks"
  by (simp add: hooks_keep_def no_hooks_def returns_def)

subsection \<open>The running maximum\<close>

lemma float64_less_trans:
  "float64_less a b \<Longrightarrow> float64_less b c \<Longrightarrow> float64_less a c"
  by (cases a; cases b; cases c) auto

lemma max_ge_setters:
  "preserves (max_ge m0) (actual_distance_error_setter r)"
  "preserves (max_ge m0) (distance_threshold_setter t)"
  "preserves (max_ge m0) (last_distance_error_setter r)"
  "preserves (max_ge m0) (mean_distance_error_setter r)"
  "preserves (max_ge m0) (num_misclassified_instances_setter i)"
  "preserves (max_ge m0) (old_mean_distance_error_setter r)"
  "preserves (max_ge m0) (std_distance_error_setter r)"
  "preserves (max_ge m0) (variance_distance_error_setter r)"
  "preserves (max_ge m0) std_distance_error_getter"
  "preserves (max_ge m0) (num_instances_setter i)"
  "preserves (max_ge m0) popleft"
  "preserves (max_ge m0) (ground_truth_extend y)"
  "preserves (max_ge m0) (predictions_extend y)"
  "preserves (max_ge m0) check_is_fitted"
  by (simp_all add: preserves_def setter_defs max_ge_def split: option.splits list.splits)

lemma max_ge_response: "preserves (max_ge m0) (response_of d w)"
  unfolding response_of_def
  by (intro preserves_and_then preserves_pure max_ge_setters)

lemma max_ge_statistics: "preserves (max_ge m0) (update_statistics sz)"
  unfolding update_statistics_def
  by (intro preserves_and_then preserves_pure preserves_if max_ge_setters)

lemma max_ge_hooks:
  assumes "hooks_keep max_distance_threshold h"
  shows "preserves (max_ge m0) (check_drift_insufficient_samples h X y)"
    and "preserves (max_ge m0) (drift_case h X y)"
    and "preserves (max_ge m0) (warning_case h X y)"
    and "preserves (max_ge m0) (normal_case h y)"
  using assms by (simp_all add: hooks_keep_def preserves_def max_ge_def)

lemma max_ge_check_case:
  assumes "hooks_keep max_distance_threshold h"
  shows "preserves (max_ge m0) (check_case h X y p)"
  unfolding check_case_def
  by (intro preserves_and_then preserves_pure preserves_if max_ge_hooks[OF assms])

text \<open>Lines 429 and 430, the only assignment of the maximum outside construction and reset.\<close>

lemma max_ge_raise_max:
  assumes "preserves (max_ge m0) f" and "\<And>mx. preserves (max_ge m0) (g mx)"
  shows "preserves (max_ge m0)
     (and_then (gets max_distance_threshold) (\<lambda>mx.
        if float64_less mx dt then and_then (max_distance_threshold_setter dt) (\<lambda>_. f)
        else g mx))"
proof -
  have step: "max_ge m0 (s\<lparr>max_distance_threshold := dt\<rparr>)"
    if "max_ge m0 s" and "float64_less (max_distance_threshold s) dt" for s
    using that float64_less_trans[of m0 "max_distance_threshold s" dt]
    by (auto simp: max_ge_def)
  show ?thesis
    using assms step
    by (simp add: preserves_def and_then_def gets_def max_distance_threshold_setter_def)
qed

lemma max_ge_threshold:
  assumes "hooks_keep max_distance_threshold h"
  shows "preserves (max_ge m0) (update_threshold h X y)"
  unfolding update_threshold_def normal_response_def
  by (intro preserves_and_then preserves_pure max_ge_setters max_ge_raise_max
        preserves_case_prod max_ge_response max_ge_check_case[OF assms])

lemma max_ge_decision:
  assumes "hooks_keep max_distance_threshold h"
  shows "preserves (max_ge m0) (update_decision h X y y_pred)"
  unfolding update_decision_def normal_response_def
  by (intro preserves_and_then preserves_pure preserves_if max_ge_setters max_ge_response
        max_ge_hooks[OF assms] max_ge_threshold[OF assms])

lemma max_ge_update:
  assumes "hooks_keep max_distance_threshold h"
  shows "preserves (max_ge m0) (update h y)"
  unfolding update_def normal_response_def
  by (intro preserves_and_then preserves_pure preserves_case_prod preserves_case_idxs
        max_ge_setters max_ge_response max_ge_statistics max_ge_decision[OF assms])

lemma max_ge_run:
  assumes "hooks_keep max_distance_threshold h" and "list_all (\<lambda>c. \<not> is_reset c) calls"
    and "max_ge m0 s"
  shows "max_ge m0 (run h calls s)"
  using assms(2,3)
proof (induction calls arbitrary: s)
  case Nil
  then show ?case by simp
next
  case (Cons c cs)
  have "max_ge m0 (step h c s)"
  proof (cases c)
    case (Predict X y_pred)
    with Cons.prems show ?thesis by (simp add: max_ge_def push_def)
  next
    case (Update y)
    with Cons.prems max_ge_update[OF assms(1), of m0 y] show ?thesis
      by (simp add: preserves_def)
  next
    case Reset
    with Cons.prems show ?thesis by simp
  qed
  with Cons show ?case by simp
qed

text \<open>
  C6. Over any sequence of calls without a reset (updates, with predictions registered
  in between), from any state of the detector, \<^verbatim>\<open>max_distance_threshold\<close> at the end is
  its value at the start or a greater one. The handlers of the base class are taken not
  to assign it. A single update call is the sequence of length one.
\<close>

theorem max_distance_threshold_monotone:
  assumes "hooks_keep max_distance_threshold h" and "list_all (\<lambda>c. \<not> is_reset c) calls"
  shows "max_distance_threshold (run h calls s) = max_distance_threshold s \<or>
         float64_less (max_distance_threshold s) (max_distance_threshold (run h calls s))"
  using max_ge_run[OF assms, of "max_distance_threshold s" s]
  by (simp add: max_ge_def)

theorem max_distance_threshold_monotone_witness:
  "hooks_keep max_distance_threshold no_hooks \<and>
   list_all (\<lambda>c. \<not> is_reset c) zone_calls \<and>
   (max_distance_threshold (run no_hooks zone_calls (EDDM_init (fresh_base zone_config)))
      = max_distance_threshold (EDDM_init (fresh_base zone_config)) \<or>
    float64_less (max_distance_threshold (EDDM_init (fresh_base zone_config)))
      (max_distance_threshold (run no_hooks zone_calls (EDDM_init (fresh_base zone_config)))))"
proof -
  have k: "hooks_keep max_distance_threshold no_hooks" by (rule hooks_keep_no_hooks)
  have r: "list_all (\<lambda>c. \<not> is_reset c) zone_calls" by (simp add: zone_calls_def)
  from max_distance_threshold_monotone[OF k r] k r show ?thesis by blast
qed

subsection \<open>The standard deviation\<close>

lemma std_ok_setters:
  "preserves std_ok (actual_distance_error_setter r)"
  "preserves std_ok (distance_threshold_setter t)"
  "preserves std_ok (last_distance_error_setter r)"
  "preserves std_ok (max_distance_threshold_setter m)"
  "preserves std_ok (mean_distance_error_setter r)"
  "preserves std_ok (num_misclassified_instances_setter i)"
  "preserves std_ok (old_mean_distance_error_setter r)"
  "preserves std_ok (std_distance_error_setter r)"
  "preserves std_ok (variance_distance_error_setter r)"
  "preserves std_ok std_distance_error_getter"
  "preserves std_ok (num_instances_setter i)"
  "preserves std_ok popleft"
  "preserves std_ok (ground_truth_extend y)"
  "preserves std_ok (predictions_extend y)"
  "preserves std_ok check_is_fitted"
  by (simp_all add: preserves_def setter_defs std_ok_def split: option.splits list.splits)

lemma std_ok_hooks:
  assumes "hooks_keep std_distance_error h"
  shows "preserves std_ok (check_drift_insufficient_samples h X y)"
    and "preserves std_ok (drift_case h X y)"
    and "preserves std_ok (warning_case h X y)"
    and "preserves std_ok (normal_case h y)"
    and "preserves std_ok (base_reset h)"
  using assms by (simp_all add: hooks_keep_def preserves_def std_ok_def)

lemma std_ok_update:
  assumes "hooks_keep std_distance_error h"
  shows "preserves std_ok (update h y)"
  unfolding update_def update_decision_def update_threshold_def update_statistics_def
    check_case_def normal_response_def response_of_def
  by (intro preserves_and_then preserves_pure preserves_if preserves_case_prod
        preserves_case_idxs std_ok_setters std_ok_hooks[OF assms])

lemma std_ok_reset:
  assumes "hooks_keep std_distance_error h"
  shows "preserves std_ok (EDDM_reset h)"
  unfolding EDDM_reset_def
  by (intro preserves_and_then preserves_pure std_ok_setters std_ok_hooks[OF assms])

lemma std_ok_step:
  assumes "hooks_keep std_distance_error h" and "std_ok s"
  shows "std_ok (step h c s)"
proof (cases c)
  case (Predict X y_pred)
  with assms(2) show ?thesis by (simp add: std_ok_def push_def)
next
  case (Update y)
  with assms(2) std_ok_update[OF assms(1), of y] show ?thesis by (simp add: preserves_def)
next
  case Reset
  with assms(2) std_ok_reset[OF assms(1)] show ?thesis by (simp add: preserves_def)
qed

lemma std_ok_run:
  assumes "hooks_keep std_distance_error h" and "std_ok s"
  shows "std_ok (run h calls s)"
  using assms(2)
  by (induction calls arbitrary: s) (simp_all add: std_ok_step[OF assms(1)])

text \<open>Every path of \<open>update\<close> that returns ends in \<^verbatim>\<open>_response\<close>, which reads the attribute.\<close>

lemma ends_and_then:
  assumes "\<And>a. ends_with_std (g a)"
  shows "ends_with_std (and_then f g)"
  using assms unfolding ends_with_std_def and_then_def
  by (auto split: prod.splits sum.splits)

lemma ends_response: "ends_with_std (response_of d w)"
  by (auto simp: ends_with_std_def response_of_def act_defs std_distance_error_getter_def
      get_update_response_def split: option.splits)

lemma ends_raise: "ends_with_std (raise e)"
  by (simp add: ends_with_std_def raise_def)

lemma ends_if:
  assumes "c \<Longrightarrow> ends_with_std f" and "\<not> c \<Longrightarrow> ends_with_std g"
  shows "ends_with_std (if c then f else g)"
  using assms by simp

lemma ends_case_prod:
  assumes "\<And>a b. ends_with_std (f a b)"
  shows "ends_with_std (case x of (a, b) \<Rightarrow> f a b)"
  using assms by (cases x) simp

lemma ends_case_idxs:
  assumes "\<And>e. ends_with_std (f e)" and "ends_with_std g" and "\<And>idxs. ends_with_std (k idxs)"
  shows "ends_with_std (case r of Inl e \<Rightarrow> f e | Inr None \<Rightarrow> g | Inr (Some idxs) \<Rightarrow> k idxs)"
  using assms by (simp split: sum.splits option.splits)

lemma ends_update: "ends_with_std (update h y)"
  unfolding update_def update_decision_def update_threshold_def normal_response_def
  by (intro ends_and_then ends_if ends_case_prod ends_case_idxs ends_response ends_raise)

subsection \<open>The example detector, step by step\<close>

lemma zone_state_eq:
  "zone_state =
     \<lparr>estimator_fitted = True, config = zone_config, num_instances = 5,
      delayed_predictions = [([ [0], [0] ], [0, 0])], drift_insufficient_samples = False,
      ground_truth = [0], predictions = [0],
      actual_distance_error = 4, distance_threshold = Fin 4, last_distance_error = 0,
      max_distance_threshold = Fin 4, mean_distance_error = 4,
      num_misclassified_instances = 1, old_mean_distance_error = 0,
      std_distance_error = Some 0, variance_distance_error = 0\<rparr>"
  unfolding zone_state_def zone_calls_def
  by (simp add: update_defs act_defs setter_defs numpy_defs example_defs)

lemma zone_update:
  "update no_hooks [0, 0] zone_state =
     (Inr \<lparr>drift = True, warning = True, response_distance_threshold = Fin (16 / 5),
           response_max_distance_threshold = Fin 4, response_mean_distance_error = 3,
           response_std_distance_error = 1\<rparr>,
      \<lparr>estimator_fitted = True, config = zone_config, num_instances = 7,
       delayed_predictions = [], drift_insufficient_samples = False,
       ground_truth = [0, 0], predictions = [0, 0],
       actual_distance_error = 6, distance_threshold = Fin (16 / 5), last_distance_error = 4,
       max_distance_threshold = Fin 4, mean_distance_error = 3,
       num_misclassified_instances = 2, old_mean_distance_error = 4,
       std_distance_error = Some 1, variance_distance_error = 2\<rparr>)"
  unfolding zone_state_eq
  by (simp add: update_defs act_defs setter_defs numpy_defs example_defs)

lemma zone_after_eq:
  "zone_after =
     \<lparr>estimator_fitted = True, config = zone_config, num_instances = 7,
      delayed_predictions = [], drift_insufficient_samples = False,
      ground_truth = [0, 0], predictions = [0, 0],
      actual_distance_error = 6, distance_threshold = Fin (16 / 5), last_distance_error = 4,
      max_distance_threshold = Fin 4, mean_distance_error = 3,
      num_misclassified_instances = 2, old_mean_distance_error = 4,
      std_distance_error = Some 1, variance_distance_error = 2\<rparr>"
  by (simp add: zone_after_def zone_update)

text \<open>
  What the code does keep: from construction, over any sequence of calls (updates,
  registered predictions, resets), every value that \<^verbatim>\<open>std_distance_error\<close> holds is at
  least 0, and an update call that returns a response leaves the attribute assigned,
  equal to the response's \<^verbatim>\<open>std_distance_error\<close>. The handlers of the base class are
  taken not to assign it.
\<close>

lemma std_distance_error_never_negative:
  assumes "hooks_keep std_distance_error h"
  shows "std_ok (run h calls (EDDM_init b)) \<and>
         (\<forall>y r s'. update h y (run h calls (EDDM_init b)) = (Inr r, s') \<longrightarrow>
            std_distance_error s' = Some (response_std_distance_error r) \<and>
            0 \<le> response_std_distance_error r)"
proof -
  let ?s = "run h calls (EDDM_init b)"
  have init: "std_ok (EDDM_init b)" by (simp add: std_ok_def EDDM_init_def)
  have inv: "std_ok ?s" by (rule std_ok_run[OF assms init])
  have "std_distance_error s' = Some (response_std_distance_error r) \<and>
        0 \<le> response_std_distance_error r"
    if u: "update h y ?s = (Inr r, s')" for y r s'
  proof -
    from ends_update[of h y] u
    have e: "std_distance_error s' = Some (response_std_distance_error r)"
      unfolding ends_with_std_def by blast
    from std_ok_update[OF assms, of y] inv u have "std_ok s'"
      by (auto simp: preserves_def dest: spec[of _ ?s])
    with e show ?thesis by (simp add: std_ok_def)
  qed
  with inv show ?thesis by blast
qed

text \<open>
  C7, on a freshly constructed detector with a pending batch of two predictions
  \<open>[1, 1]\<close>: \<^verbatim>\<open>__init__\<close> has assigned no \<^verbatim>\<open>std_distance_error\<close>; the update with
  labels \<open>[0, 0]\<close> takes the early return of line 378, where \<^verbatim>\<open>_normal_response\<close> reads
  the attribute and raises AttributeError; after the call the attribute still has no
  value, so it is not a number at or above 0. The same holds after an update that finds
  the buffer empty.
\<close>

theorem std_distance_error_unassigned_after_update:
  "std_distance_error (EDDM_init (fresh_base default_config)) = None \<and>
   update no_hooks [0, 0] pending_two =
     (Inl AttributeError, pending_two\<lparr>num_instances := 2, delayed_predictions := []\<rparr>) \<and>
   std_distance_error (snd (update no_hooks [0, 0] pending_two)) = None \<and>
   std_distance_error (snd (update no_hooks [1] (EDDM_init (fresh_base default_config)))) = None"
  unfolding pending_two_def
  by (simp add: update_defs act_defs setter_defs numpy_defs example_defs)

subsection \<open>Construction of a configuration\<close>

lemma float64_le_iff_not_less:
  assumes "a \<noteq> NaN" and "b \<noteq> NaN"
  shows "float64_le a b \<longleftrightarrow> \<not> float64_less b a"
  using assms by (cases a; cases b) (auto simp: float64_le_def)

lemma float64_less_not_NaN:
  assumes "float64_less a b"
  shows "a \<noteq> NaN \<and> b \<noteq> NaN"
  using assms by (cases a; cases b) auto

text \<open>
  When none of alpha, beta and level is nan, construction does what its checks are
  for: a configuration that \<^verbatim>\<open>EDDMConfig.__init__\<close> returns has \<open>0 < beta < alpha\<close> and
  \<open>level > 0\<close>; arguments that break one of these rules make the construction raise
  ValueError (the specification's ConfigurationError); arguments that keep all the
  rules, the two minima not negative, give the configuration made of them.
\<close>

lemma EDDMConfig_init_validates:
  assumes "a \<noteq> NaN" and "b \<noteq> NaN" and "l \<noteq> NaN"
  shows
  "(\<forall>c. EDDMConfig_init a b l m n = Inr c \<longrightarrow>
        float64_less (Fin 0) (beta c) \<and> float64_less (beta c) (alpha c) \<and>
        float64_less (Fin 0) (level c)) \<and>
   (\<not> (float64_less (Fin 0) b \<and> float64_less b a \<and> float64_less (Fin 0) l) \<longrightarrow>
        (\<exists>msg. EDDMConfig_init a b l m n = Inl (ValueError msg))) \<and>
   (float64_less (Fin 0) b \<and> float64_less b a \<and> float64_less (Fin 0) l \<and> 0 \<le> m \<and> 0 \<le> n \<longrightarrow>
        EDDMConfig_init a b l m n =
          Inr \<lparr>min_num_instances = n, alpha = a, beta = b, level = l,
               min_num_misclassified_instances = m\<rparr>)"
proof -
  have b0: "float64_le b (Fin 0) \<longleftrightarrow> \<not> float64_less (Fin 0) b"
    using assms(2) by (simp add: float64_le_iff_not_less)
  have ab: "float64_le a b \<longleftrightarrow> \<not> float64_less b a"
    using assms(1,2) by (simp add: float64_le_iff_not_less)
  have l0: "float64_le l (Fin 0) \<longleftrightarrow> \<not> float64_less (Fin 0) l"
    using assms(3) by (simp add: float64_le_iff_not_less)
  show ?thesis
    by (auto simp: config_defs b0 ab l0 split: if_splits)
qed

lemma EDDMConfig_init_scenario_B:
  "EDDMConfig_init (Fin (1 / 2)) (Fin (9 / 10)) (Fin 2) 30 30 =
     Inl (ValueError ''beta must be less than alpha.'')"
  by (simp add: config_defs float64_le_def)

text \<open>In every configuration that construction returns, alpha is not below beta.\<close>

lemma EDDMConfig_init_alpha_not_below_beta:
  assumes "EDDMConfig_init a b l m n = Inr c"
  shows "\<not> float64_less (alpha c) (beta c)"
  using assms by (auto simp: config_defs float64_le_def split: if_splits)

text \<open>
  C3, at the arguments beta = nan and level = nan: the tests of lines 79, 81 and 102 are
  false for nan, so no ValueError is raised and the construction returns a
  configuration; its beta is not above 0 and not below alpha, its level is not above 0.
\<close>

theorem EDDMConfig_init_accepts_nan:
  "EDDMConfig_init (Fin (95 / 100)) NaN (Fin 2) 30 30 = Inr (default_config\<lparr>beta := NaN\<rparr>) \<and>
   \<not> float64_less (Fin 0) (beta (default_config\<lparr>beta := NaN\<rparr>)) \<and>
   \<not> float64_less (beta (default_config\<lparr>beta := NaN\<rparr>)) (alpha (default_config\<lparr>beta := NaN\<rparr>)) \<and>
   EDDMConfig_init (Fin (95 / 100)) (Fin (9 / 10)) NaN 30 30 = Inr (default_config\<lparr>level := NaN\<rparr>) \<and>
   \<not> float64_less (Fin 0) (level (default_config\<lparr>level := NaN\<rparr>))"
  by (simp add: config_defs default_config_def float64_le_def)

text \<open>
  C10. The alpha setter has no check: at construction and on a constructed
  configuration, every value is stored as it is. The default configuration is
  constructed, and after \<^verbatim>\<open>config.alpha = 0.5\<close> it has alpha 0.5 below its beta 0.9.
\<close>

theorem alpha_setter_unvalidated:
  "alpha_check v = Inr v \<and>
   alpha_setter v c = Inr (c\<lparr>alpha := v\<rparr>) \<and>
   alpha (c\<lparr>alpha := v\<rparr>) = v \<and>
   EDDMConfig_init (Fin (95 / 100)) (Fin (9 / 10)) (Fin 2) 30 30 = Inr default_config \<and>
   alpha_setter (Fin (1 / 2)) default_config = Inr (default_config\<lparr>alpha := Fin (1 / 2)\<rparr>) \<and>
   float64_less (alpha (default_config\<lparr>alpha := Fin (1 / 2)\<rparr>))
     (beta (default_config\<lparr>alpha := Fin (1 / 2)\<rparr>))"
  by (simp add: alpha_setter_def config_defs default_config_def float64_le_def)

subsection \<open>Errors of update\<close>

text \<open>
  C8. When the classifier is not fitted, \<^verbatim>\<open>update\<close> raises NotFittedError and the
  detector is as it was before the call, in every attribute.
\<close>

theorem update_not_fitted:
  assumes "\<not> estimator_fitted s"
  shows "update h y s = (Inl NotFittedError, s)"
  using assms by (simp add: update_def and_then_def check_is_fitted_def)

theorem update_not_fitted_witness:
  "\<not> estimator_fitted unfitted \<and>
   update no_hooks [1, 1] unfitted = (Inl NotFittedError, unfitted)"
proof -
  have f: "\<not> estimator_fitted unfitted" by (simp add: unfitted_def)
  from update_not_fitted[OF f] f show ?thesis by blast
qed

text \<open>
  C9. When the classifier is fitted and no batch of predictions is pending, \<^verbatim>\<open>update\<close>
  raises the error of the empty buffer, and the detector is as it was.
\<close>

theorem update_empty_buffer:
  assumes "estimator_fitted s" and "delayed_predictions s = []"
  shows "update h y s = (Inl EmptyBufferError, s)"
  using assms by (simp add: update_def and_then_def check_is_fitted_def popleft_def)

theorem update_empty_buffer_witness:
  "estimator_fitted (EDDM_init (fresh_base default_config)) \<and>
   delayed_predictions (EDDM_init (fresh_base default_config)) = [] \<and>
   update no_hooks [1] (EDDM_init (fresh_base default_config))
     = (Inl EmptyBufferError, EDDM_init (fresh_base default_config))"
proof -
  have f: "estimator_fitted (EDDM_init (fresh_base default_config))"
    by (simp add: EDDM_init_def fresh_base_def)
  have e: "delayed_predictions (EDDM_init (fresh_base default_config)) = []"
    by (simp add: EDDM_init_def fresh_base_def)
  from update_empty_buffer[OF f e] f e show ?thesis by blast
qed

subsection \<open>The threshold and the three zones\<close>

lemma float64_le_not_less: "float64_le a b \<Longrightarrow> \<not> float64_less b a"
  by (cases a; cases b) (auto simp: float64_le_def)

lemma float64_le_less_trans:
  "float64_le a b \<Longrightarrow> float64_less b c \<Longrightarrow> float64_less a c"
  by (cases a; cases b; cases c) (auto simp: float64_le_def)

lemma check_case_result:
  assumes "check_case h X y p s = (Inr (d, w), s')"
  shows "(d, w) =
     (if float64_less p (beta (config s)) then (True, True)
      else if float64_less p (alpha (config s)) then (False, True)
      else (False, False))"
  using assms
  by (auto simp: check_case_def act_defs split: if_splits prod.splits sum.splits)

lemma response_of_flags:
  assumes "response_of d w s = (Inr r, s')"
  shows "drift r = d \<and> warning r = w"
  using assms
  by (auto simp: response_of_def act_defs std_distance_error_getter_def get_update_response_def
      split: option.splits)

lemma response_of_Some:
  assumes "std_distance_error s = Some sd"
  shows "response_of d w s =
     (Inr (get_update_response d w (distance_threshold s) (max_distance_threshold s)
            (mean_distance_error s) sd), s)"
  using assms by (simp add: response_of_def act_defs std_distance_error_getter_def)

lemma update_threshold_unfold:
  assumes "std_distance_error s = Some sd"
    and "v = float64_add (Fin (mean_distance_error s)) (float64_mul (level (config s)) (Fin sd))"
    and "\<not> float64_less v (Fin 0)"
  shows "update_threshold h X y s =
     (if float64_less (max_distance_threshold s) v
      then (Inr (get_update_response False False v v (mean_distance_error s) sd),
            s\<lparr>distance_threshold := v, max_distance_threshold := v\<rparr>)
      else and_then (check_case h X y (float64_div v (max_distance_threshold s)))
             (\<lambda>(d, w). response_of d w) (s\<lparr>distance_threshold := v\<rparr>))"
  using assms
  by (simp add: update_threshold_def normal_response_def response_of_Some act_defs
      std_distance_error_getter_def distance_threshold_setter_def
      max_distance_threshold_setter_def)

lemma update_threshold_returns_nonneg:
  assumes "std_distance_error s = Some sd"
    and "update_threshold h X y s = (Inr r, s')"
  shows "\<not> float64_less
      (float64_add (Fin (mean_distance_error s)) (float64_mul (level (config s)) (Fin sd)))
      (Fin 0)"
  using assms
  by (auto simp: update_threshold_def act_defs std_distance_error_getter_def
      distance_threshold_setter_def split: if_splits)

text \<open>
  The check of the \<^verbatim>\<open>distance_threshold\<close> setter passes in every state that the
  setters of the mean, the standard deviation and the level allow: with a finite level
  the sum is the real number \<open>mean + level * std\<close>, which is not negative.
\<close>

lemma threshold_finite_level:
  assumes "level (config s) = Fin l"
  shows "float64_add (Fin (mean_distance_error s)) (float64_mul (level (config s)) (Fin sd))
           = Fin (mean_distance_error s + l * sd)"
  using assms by simp

lemma threshold_not_negative:
  assumes "0 \<le> mean_distance_error s" and "0 \<le> sd" and "float64_less (Fin 0) (level (config s))"
  shows "\<not> float64_less
      (float64_add (Fin (mean_distance_error s)) (float64_mul (level (config s)) (Fin sd)))
      (Fin 0)"
proof (cases "level (config s)")
  case (Fin l)
  with assms(3) have "0 \<le> l" by simp
  with assms(2) have "0 \<le> l * sd" by simp
  with assms(1) have "0 \<le> mean_distance_error s + l * sd" by simp
  with Fin show ?thesis by simp
qed (use assms in auto)

text \<open>
  C5. At line 425 the detector has a standard deviation \<open>sd\<close>, and \<open>v\<close>, the float
  \<^verbatim>\<open>mean_distance_error + level * std_distance_error\<close>, passes the check of the setter
  (it is not below 0). Then \<^verbatim>\<open>distance_threshold\<close> is set to \<open>v\<close>. When \<open>v\<close> is greater
  than \<^verbatim>\<open>max_distance_threshold\<close>, the maximum is set to \<open>v\<close>, the normal response is
  returned, nothing else changes and no handler runs. Otherwise the call goes on to
  \<^verbatim>\<open>_check_case\<close> with the ratio of \<open>v\<close> and the maximum.
\<close>

theorem update_threshold_new_maximum:
  assumes "std_distance_error s = Some sd"
    and "v = float64_add (Fin (mean_distance_error s)) (float64_mul (level (config s)) (Fin sd))"
    and "\<not> float64_less v (Fin 0)"
  shows "(float64_less (max_distance_threshold s) v \<longrightarrow>
            update_threshold h X y s =
              (Inr (get_update_response False False v v (mean_distance_error s) sd),
               s\<lparr>distance_threshold := v, max_distance_threshold := v\<rparr>)) \<and>
         (\<not> float64_less (max_distance_threshold s) v \<longrightarrow>
            update_threshold h X y s =
              and_then (check_case h X y (float64_div v (max_distance_threshold s)))
                (\<lambda>(d, w). response_of d w) (s\<lparr>distance_threshold := v\<rparr>))"
  using update_threshold_unfold[OF assms, of h X y] by simp

theorem update_threshold_new_maximum_witness:
  "std_distance_error threshold_fresh = Some 0 \<and>
   float64_less (max_distance_threshold threshold_fresh) (Fin 0) \<and>
   update_threshold no_hooks [] [] threshold_fresh =
     (Inr (get_update_response False False (Fin 0) (Fin 0) 0 0),
      threshold_fresh\<lparr>distance_threshold := Fin 0, max_distance_threshold := Fin 0\<rparr>)"
proof -
  have sd: "std_distance_error threshold_fresh = Some 0"
    by (simp add: threshold_fresh_def)
  have v: "Fin 0 = float64_add (Fin (mean_distance_error threshold_fresh))
      (float64_mul (level (config threshold_fresh)) (Fin 0))"
    by (simp add: threshold_fresh_def example_defs)
  have nn: "\<not> float64_less (Fin 0) (Fin 0)" by simp
  have less: "float64_less (max_distance_threshold threshold_fresh) (Fin 0)"
    by (simp add: threshold_fresh_def example_defs)
  have m: "mean_distance_error threshold_fresh = 0"
    by (simp add: threshold_fresh_def example_defs)
  from update_threshold_new_maximum[OF sd v nn, of no_hooks "[]" "[]"] less m sd
  show ?thesis by simp
qed

text \<open>
  C4. An update call that reaches line 434 and returns, on a detector in whose
  configuration alpha is not below beta (so it is in every configuration that
  construction returns), has the flags of its response decided by the ratio \<open>p\<close> of the
  new \<^verbatim>\<open>distance_threshold\<close> and \<^verbatim>\<open>max_distance_threshold\<close>: drift and warning when
  \<open>p < beta\<close>; warning alone when \<open>beta \<le> p < alpha\<close>; neither when \<open>p \<ge> alpha\<close>.
\<close>

theorem zone_decision_flags:
  assumes "std_distance_error s = Some sd"
    and "v = float64_add (Fin (mean_distance_error s)) (float64_mul (level (config s)) (Fin sd))"
    and "\<not> float64_less (max_distance_threshold s) v"
    and "p = float64_div v (max_distance_threshold s)"
    and "\<not> float64_less (alpha (config s)) (beta (config s))"
    and "update_threshold h X y s = (Inr r, s')"
  shows "(float64_less p (beta (config s)) \<longrightarrow> drift r \<and> warning r) \<and>
         (float64_le (beta (config s)) p \<and> float64_less p (alpha (config s)) \<longrightarrow>
            \<not> drift r \<and> warning r) \<and>
         (float64_le (alpha (config s)) p \<longrightarrow> \<not> drift r \<and> \<not> warning r)"
proof -
  have nn: "\<not> float64_less v (Fin 0)"
    using update_threshold_returns_nonneg[OF assms(1) assms(6)] assms(2) by simp
  let ?s1 = "s\<lparr>distance_threshold := v\<rparr>"
  from update_threshold_unfold[OF assms(1,2) nn, of h X y] assms(3,4,6)
  have run: "and_then (check_case h X y p) (\<lambda>(d, w). response_of d w) ?s1 = (Inr r, s')"
    by simp
  then obtain d w s2 where cc: "check_case h X y p ?s1 = (Inr (d, w), s2)"
    and resp: "response_of d w s2 = (Inr r, s')"
    by (auto simp: and_then_def split: prod.splits sum.splits)
  from check_case_result[OF cc]
  have dw: "(d, w) =
     (if float64_less p (beta (config s)) then (True, True)
      else if float64_less p (alpha (config s)) then (False, True)
      else (False, False))"
    by simp
  from response_of_flags[OF resp] have fl: "drift r = d" "warning r = w" by simp_all
  have third: "\<not> float64_less p (beta (config s))" if "float64_le (alpha (config s)) p"
    using float64_le_less_trans[OF that] assms(5) by blast
  show ?thesis
    using dw fl third float64_le_not_less[of "beta (config s)" p]
      float64_le_not_less[of "alpha (config s)" p]
    by (auto split: if_splits)
qed

theorem zone_decision_flags_witness:
  "std_distance_error zone_after = Some 1 \<and>
   \<not> float64_less (max_distance_threshold zone_after) (Fin (16 / 5)) \<and>
   \<not> float64_less (alpha (config zone_after)) (beta (config zone_after)) \<and>
   float64_less (float64_div (Fin (16 / 5)) (Fin 4)) (beta (config zone_after)) \<and>
   update_threshold no_hooks [] [] zone_after =
     (Inr (get_update_response True True (Fin (16 / 5)) (Fin 4) 3 1), zone_after) \<and>
   drift (get_update_response True True (Fin (16 / 5)) (Fin 4) 3 1) \<and>
   warning (get_update_response True True (Fin (16 / 5)) (Fin 4) 3 1)"
proof -
  let ?r = "get_update_response True True (Fin (16 / 5)) (Fin 4) 3 1"
  have sd: "std_distance_error zone_after = Some 1" by (simp add: zone_after_eq)
  have v: "Fin (16 / 5) = float64_add (Fin (mean_distance_error zone_after))
      (float64_mul (level (config zone_after)) (Fin 1))"
    by (simp add: zone_after_eq zone_config_def)
  have nl: "\<not> float64_less (max_distance_threshold zone_after) (Fin (16 / 5))"
    by (simp add: zone_after_eq)
  have p: "float64_div (Fin (16 / 5)) (Fin 4)
      = float64_div (Fin (16 / 5)) (max_distance_threshold zone_after)"
    by (simp add: zone_after_eq)
  have ab: "\<not> float64_less (alpha (config zone_after)) (beta (config zone_after))"
    by (simp add: zone_after_eq zone_config_def)
  have u: "update_threshold no_hooks [] [] zone_after = (Inr ?r, zone_after)"
    by (simp add: zone_after_eq update_defs act_defs setter_defs example_defs)
  have b: "float64_less (float64_div (Fin (16 / 5)) (Fin 4)) (beta (config zone_after))"
    by (simp add: zone_after_eq zone_config_def)
  from zone_decision_flags[OF sd v nl p ab u] b have "drift ?r \<and> warning ?r" by blast
  with sd nl ab b u show ?thesis by simp
qed

subsection \<open>The positions that update selects\<close>

text \<open>
  For arrays of one length, \<^verbatim>\<open>misclassified_idxs\<close> is the array of the first position
  where prediction and truth agree, and the \<^verbatim>\<open>try\<close> block takes its \<^verbatim>\<open>except\<close>
  branch exactly when they agree nowhere.
\<close>

lemma misclassified_idxs_equal_length:
  assumes "length y = length y_pred"
  shows "misclassified_idxs y y_pred =
     (case filter (\<lambda>i. y ! i = y_pred ! i) [0 ..< length y] of
        [] \<Rightarrow> Inr None
      | i # _ \<Rightarrow> Inr (Some [i]))"
proof -
  let ?ne = "map2 (\<lambda>a b. a \<noteq> b) y y_pred"
  have ne: "np_not_equal y y_pred = Inr ?ne"
    using assms by (simp add: np_not_equal_def)
  have "np_argwhere (map Not ?ne) = filter (\<lambda>i. y ! i = y_pred ! i) [0 ..< length y]"
    unfolding np_argwhere_def using assms by (auto intro!: filter_cong)
  then show ?thesis
    unfolding misclassified_idxs_def ne by simp
qed

lemma filter_upt_first:
  assumes "filter P [0 ..< n] = i # rest"
  shows "i < n \<and> P i \<and> (\<forall>j<i. \<not> P j)"
proof -
  from assms obtain us vs where split: "[0 ..< n] = us @ i # vs"
    and us: "\<forall>u\<in>set us. \<not> P u" and Pi: "P i"
    by (auto simp: filter_eq_Cons_iff)
  have "i \<in> set [0 ..< n]" by (simp add: split)
  then have lt: "i < n" by simp
  have "sorted (us @ i # vs)" "distinct (us @ i # vs)"
    using split[symmetric] by simp_all
  then have vs: "\<forall>v\<in>set vs. i < v"
    by (auto simp: sorted_append le_less)
  have "\<not> P j" if "j < i" for j
  proof -
    from that lt have "j \<in> set [0 ..< n]" by simp
    then have "j \<in> set us \<or> j = i \<or> j \<in> set vs" by (auto simp: split)
    with that vs us show ?thesis by auto
  qed
  with lt Pi show ?thesis by blast
qed

lemma misclassified_idxs_selects:
  assumes "length y = length y_pred" and "misclassified_idxs y y_pred = Inr (Some idxs)"
  shows "\<exists>i. idxs = [i] \<and> i < length y \<and> y ! i = y_pred ! i \<and> (\<forall>j<i. y ! j \<noteq> y_pred ! j)"
proof -
  from assms obtain i rest
    where f: "filter (\<lambda>i. y ! i = y_pred ! i) [0 ..< length y] = i # rest" and "idxs = [i]"
    by (auto simp: misclassified_idxs_equal_length split: list.splits)
  with filter_upt_first[OF f] show ?thesis by auto
qed

lemma misclassified_idxs_none:
  assumes "length y = length y_pred"
  shows "misclassified_idxs y y_pred = Inr None \<longleftrightarrow> (\<forall>i<length y. y ! i \<noteq> y_pred ! i)"
proof (cases "filter (\<lambda>i. y ! i = y_pred ! i) [0 ..< length y]")
  case Nil
  then have "\<forall>i<length y. y ! i \<noteq> y_pred ! i"
    by (auto simp: filter_empty_conv)
  with Nil show ?thesis
    by (simp add: misclassified_idxs_equal_length[OF assms])
next
  case (Cons i rest)
  from filter_upt_first[OF Cons] have "\<not> (\<forall>i<length y. y ! i \<noteq> y_pred ! i)"
    by blast
  with Cons show ?thesis
    by (simp add: misclassified_idxs_equal_length[OF assms])
qed

text \<open>
  C1, at a batch of three with truth \<open>[1, 1, 0]\<close> and predictions \<open>[0, 0, 0]\<close>: the
  misclassified positions are 0 and 1; \<^verbatim>\<open>misclassified_idxs\<close> is the array of
  position 2, where the prediction is right; \<^verbatim>\<open>num_misclassified_instances\<close> goes
  from 0 to 1.
\<close>

theorem misclassified_idxs_first_correct_position:
  "misclassified_positions [1, 1, 0] [0, 0, 0] = [0, 1] \<and>
   misclassified_idxs [1, 1, 0] [0, 0, 0] = Inr (Some [2]) \<and>
   num_misclassified_instances pending_three = 0 \<and>
   num_misclassified_instances (snd (update no_hooks [1, 1, 0] pending_three)) = 1"
  unfolding pending_three_def
  by (simp add: misclassified_positions_def update_defs act_defs setter_defs numpy_defs
      example_defs)

text \<open>
  C2, at a batch of two with truth and predictions \<open>[1, 1]\<close> on a freshly constructed
  detector: no position is misclassified; \<^verbatim>\<open>misclassified_idxs\<close> is the array of
  position 0, the statistics are updated, and \<^verbatim>\<open>mean_distance_error\<close> goes from 0
  to 1.
\<close>

theorem update_all_correct_updates_statistics:
  "misclassified_positions [1, 1] [1, 1] = [] \<and>
   misclassified_idxs [1, 1] [1, 1] = Inr (Some [0]) \<and>
   mean_distance_error pending_two = 0 \<and>
   mean_distance_error (snd (update no_hooks [1, 1] pending_two)) = 1 \<and>
   num_misclassified_instances (snd (update no_hooks [1, 1] pending_two)) = 1"
  unfolding pending_two_def
  by (simp add: misclassified_positions_def update_defs act_defs setter_defs numpy_defs
      example_defs)

end
